theory Spec2Isabelle
  imports Complex_Main
begin

section \<open>JavaScript values used by the overlay components\<close>

text \<open>
  The components are React/JavaScript. A numeric field of a feed record is a finite
  number or absent (\<open>undefined\<close>): \<open>real option\<close>. Comparisons of finite numbers
  are exact, so they are modelled on \<open>real\<close>. Arithmetic on an absent operand gives
  \<open>NaN\<close>, which is kept as a value of its own where the source can produce it.
\<close>

datatype jsnum = Num real | NaN

text \<open>\<open>x || d\<close> on a numeric field: the default replaces \<open>undefined\<close> and \<open>0\<close>.\<close>

definition or_number :: "real option \<Rightarrow> real \<Rightarrow> real" where
  "or_number x d = (case x of None \<Rightarrow> d | Some v \<Rightarrow> if v = 0 then d else v)"

text \<open>\<open>!x\<close> on a numeric field.\<close>

definition falsy :: "real option \<Rightarrow> bool" where
  "falsy x = (case x of None \<Rightarrow> True | Some v \<Rightarrow> v = 0)"

text \<open>\<open>x > c\<close> and \<open>x < c\<close> on a numeric field: false when the field is absent.\<close>

definition gt_num :: "real option \<Rightarrow> real \<Rightarrow> bool" where
  "gt_num x c = (case x of None \<Rightarrow> False | Some v \<Rightarrow> v > c)"

definition lt_num :: "real option \<Rightarrow> real \<Rightarrow> bool" where
  "lt_num x c = (case x of None \<Rightarrow> False | Some v \<Rightarrow> v < c)"

text \<open>
  \<open>Math.sqrt\<close>, \<open>Math.min\<close>, \<open>Math.max\<close> and the arithmetic operators on values
  that may be \<open>NaN\<close>. Every divisor in the modelled code is a non-zero literal or a
  value made non-zero by \<open>||\<close>, so the quotient by zero is not needed.
\<close>

definition Math_sqrt :: "real \<Rightarrow> jsnum" where
  "Math_sqrt x = (if x < 0 then NaN else Num (sqrt x))"

fun Math_min :: "jsnum \<Rightarrow> jsnum \<Rightarrow> jsnum" where
  "Math_min (Num a) (Num b) = Num (min a b)"
| "Math_min _ _ = NaN"

fun Math_max :: "jsnum \<Rightarrow> jsnum \<Rightarrow> jsnum" where
  "Math_max (Num a) (Num b) = Num (max a b)"
| "Math_max _ _ = NaN"

fun num_times :: "jsnum \<Rightarrow> real \<Rightarrow> jsnum" where
  "num_times (Num a) k = Num (a * k)"
| "num_times NaN k = NaN"

fun num_div :: "jsnum \<Rightarrow> real \<Rightarrow> jsnum" where
  "num_div (Num a) d = Num (a / d)"
| "num_div NaN d = NaN"

fun num_plus :: "jsnum \<Rightarrow> real \<Rightarrow> jsnum" where
  "num_plus (Num a) k = Num (a + k)"
| "num_plus NaN k = NaN"

text \<open>A field read in arithmetic position: \<open>undefined\<close> becomes \<open>NaN\<close>.\<close>

definition to_num :: "real option \<Rightarrow> jsnum" where
  "to_num x = (case x of None \<Rightarrow> NaN | Some v \<Rightarrow> Num v)"

section \<open>Feed records\<close>

text \<open>
  The feed's entities are plain JSON objects told apart by the fields they carry. One
  record holds every field the components read; \<open>None\<close> is an absent field.
\<close>

record coords =
  lat :: "real option"
  lng :: "real option"

record entity =
  entity_id :: "string option"
  name :: "string option"
  fuel_type :: "string option"
  node_type :: "string option"
  country_code :: "string option"
  coords :: "coords option"
  output_mw :: "real option"
  capacity_mw :: "real option"
  bids_mw :: "real option"
  offers_mw :: "real option"
  flow_mw :: "real option"
  headroom_mw :: "real option"
  voltage_kv :: "real option"
  load_mw :: "real option"
  index :: "string option"
  intensity :: "real option"

text \<open>The object \<open>{}\<close>.\<close>

definition empty_entity :: entity where
  "empty_entity =
     \<lparr>entity_id = None, name = None, fuel_type = None, node_type = None,
      country_code = None, coords = None, output_mw = None, capacity_mw = None,
      bids_mw = None, offers_mw = None, flow_mw = None, headroom_mw = None,
      voltage_kv = None, load_mw = None, index = None, intensity = None\<rparr>"

text \<open>\<open>e.coords?.lat\<close> and \<open>e.coords?.lng\<close>.\<close>

definition coords_lat :: "entity \<Rightarrow> real option" where
  "coords_lat e = (case coords e of None \<Rightarrow> None | Some c \<Rightarrow> lat c)"

definition coords_lng :: "entity \<Rightarrow> real option" where
  "coords_lng e = (case coords e of None \<Rightarrow> None | Some c \<Rightarrow> lng c)"

section \<open>Fuel colours\<close>

text \<open>
  The colour entries of \<open>FUEL_CONFIG\<close> (schematic and real-map simulators) and of
  \<open>FuelColors\<close> (map overlay); the lookup falls back to the colour of \<open>other\<close>.
\<close>

definition FUEL_CONFIG :: "(string \<times> string) list" where
  "FUEL_CONFIG =
     [(''wind'', ''#10b981''), (''solar'', ''#fbbf24''), (''gas'', ''#ef4444''),
      (''nuclear'', ''#f59e0b''), (''biomass'', ''#84cc16''), (''battery'', ''#8b5cf6''),
      (''hydro'', ''#3b82f6''), (''coal'', ''#374151''), (''imports'', ''#06b6d4''),
      (''other'', ''#6b7280'')]"

definition FuelColors :: "(string \<times> string) list" where
  "FuelColors =
     [(''wind'', ''#10b981''), (''solar'', ''#fbbf24''), (''gas'', ''#ef4444''),
      (''nuclear'', ''#f59e0b''), (''biomass'', ''#84cc16''), (''battery'', ''#8b5cf6''),
      (''hydro'', ''#3b82f6''), (''coal'', ''#1f2937''), (''other'', ''#6b7280'')]"

definition lookup_color :: "(string \<times> string) list \<Rightarrow> string option \<Rightarrow> string" where
  "lookup_color table key =
     (case key of
        None \<Rightarrow> ''#6b7280''
      | Some k \<Rightarrow> (case map_of table k of None \<Rightarrow> ''#6b7280'' | Some c \<Rightarrow> c))"

section \<open>Coordinate projection\<close>

text \<open>
  \<open>latLngToXY\<close> of the schematic simulator: the bounding box north 60, south 49.5,
  east 2, west -8 onto a 400 by 500 surface.
\<close>

definition latLngToXY :: "real \<Rightarrow> real \<Rightarrow> real \<times> real" where
  "latLngToXY la lo =
     (((lo - (-8)) / (2 - (-8))) * 400, ((60 - la) / (60 - 49.5)) * 500)"

text \<open>\<open>toSVG\<close> of the map overlay; its arguments are read without a default.\<close>

definition toSVG :: "real option \<Rightarrow> real option \<Rightarrow> jsnum \<times> jsnum" where
  "toSVG la lo =
     (num_plus (num_times (num_div (num_plus (to_num lo) 8) 10) 200) 50,
      num_plus (num_times (num_div (case la of None \<Rightarrow> NaN | Some v \<Rightarrow> Num (60 - v)) 10.5) 380) 20)"

section \<open>Generator markers\<close>

text \<open>
  \<open>AnimatedGeneratorIcon\<close> of the schematic simulator: always yields a group, placed
  at the projected position, with the marker size and the opacity computed from the
  generator. The rotation animation is left out.
\<close>

record svg_generator =
  gen_pos :: "real \<times> real"
  gen_size :: jsnum
  gen_opacity :: real
  gen_color :: string
  gen_selected :: bool
  gen_source :: entity

definition AnimatedGeneratorIcon_size :: "real \<Rightarrow> real option \<Rightarrow> jsnum" where
  "AnimatedGeneratorIcon_size scale cap =
     Math_max (Num 12) (Math_min (Num 32) (num_times (Math_sqrt (or_number cap 50)) scale))"

definition AnimatedGeneratorIcon_capFactor :: "entity \<Rightarrow> real" where
  "AnimatedGeneratorIcon_capFactor generator =
     max 0.3 (or_number (output_mw generator) 0 / or_number (capacity_mw generator) 100)"

definition AnimatedGeneratorIcon :: "real \<Rightarrow> bool \<Rightarrow> entity \<Rightarrow> svg_generator" where
  "AnimatedGeneratorIcon scale selected generator =
     \<lparr>gen_pos = latLngToXY (or_number (coords_lat generator) 54) (or_number (coords_lng generator) (-2)),
      gen_size = AnimatedGeneratorIcon_size scale (capacity_mw generator),
      gen_opacity = AnimatedGeneratorIcon_capFactor generator,
      gen_color = lookup_color FUEL_CONFIG (fuel_type generator),
      gen_selected = selected,
      gen_source = generator\<rparr>"

text \<open>
  \<open>GeneratorMarker\<close> of the real-map simulator: \<open>null\<close> when the latitude or the
  longitude is absent or zero, otherwise a circle marker at the coordinates.
\<close>

record circle_marker =
  center :: "real \<times> real"
  radius :: jsnum
  fillColor :: string
  fillOpacity :: real
  marker_source :: entity

definition GeneratorMarker_radius :: "real option \<Rightarrow> jsnum" where
  "GeneratorMarker_radius cap =
     Math_max (Num 5) (Math_min (Num 20) (num_div (Math_sqrt (or_number cap 50)) 2))"

definition GeneratorMarker_capFactor :: "entity \<Rightarrow> real" where
  "GeneratorMarker_capFactor generator =
     or_number (output_mw generator) 0 / or_number (capacity_mw generator) 100"

definition GeneratorMarker :: "entity \<Rightarrow> circle_marker option" where
  "GeneratorMarker generator =
     (if falsy (coords_lat generator) \<or> falsy (coords_lng generator) then None
      else Some \<lparr>center = (the (coords_lat generator), the (coords_lng generator)),
                 radius = GeneratorMarker_radius (capacity_mw generator),
                 fillColor = lookup_color FUEL_CONFIG (fuel_type generator),
                 fillOpacity = max 0.3 (GeneratorMarker_capFactor generator),
                 marker_source = generator\<rparr>)"

text \<open>
  The generator circle of \<open>UKMapSVG\<close> (map overlay): \<open>null\<close> when \<open>coords\<close> is
  absent or the latitude is exactly zero; the radius is computed from the output.
\<close>

record svg_circle =
  circle_pos :: "jsnum \<times> jsnum"
  circle_r :: jsnum
  circle_fill :: string
  circle_opacity :: real
  circle_source :: entity

definition UKMapSVG_generator_size :: "real option \<Rightarrow> jsnum" where
  "UKMapSVG_generator_size out =
     Math_min (Math_max (num_div (to_num out) 100) (Num 3)) (Num 12)"

definition UKMapSVG_generator :: "entity \<Rightarrow> svg_circle option" where
  "UKMapSVG_generator gen =
     (case coords gen of
        None \<Rightarrow> None
      | Some c \<Rightarrow>
          if lat c = Some 0 then None
          else Some \<lparr>circle_pos = toSVG (lat c) (lng c),
                     circle_r = UKMapSVG_generator_size (output_mw gen),
                     circle_fill = lookup_color FuelColors (fuel_type gen),
                     circle_opacity = 0.8,
                     circle_source = gen\<rparr>)"


definition static_generator_fillOpacity :: real where
  "static_generator_fillOpacity = 0.7"

section \<open>Headroom colour bands\<close>

text \<open>\<open>getHeadroomColor\<close> of the real-map simulator with static data.\<close>

definition getHeadroomColor :: "real \<Rightarrow> string" where
  "getHeadroomColor headroom =
     (if headroom > 100 then ''#22c55e''
      else if headroom > 50 then ''#f59e0b''
      else ''#ef4444'')"

text \<open>\<open>headroomColor\<close> of the grid simulator map built on SimpleMap.\<close>

definition headroomColor :: "real \<Rightarrow> string" where
  "headroomColor h =
     (if h > 100 then ''#22c55e''
      else if h > 50 then ''#f59e0b''
      else ''#ef4444'')"

text \<open>
  \<open>GridNodeMarker\<close> (schematic simulator and real-map simulator alike):
  \<open>headroom = node.headroom_mw || 0\<close>, then the same two comparisons.
\<close>

definition GridNodeMarker_color :: "entity \<Rightarrow> string" where
  "GridNodeMarker_color node =
     (let headroom = or_number (headroom_mw node) 0
      in if headroom > 100 then ''#22c55e''
         else if headroom > 50 then ''#f59e0b''
         else ''#ef4444'')"

text \<open>The node colour of \<open>UKMapSVG\<close>: the field is compared as it is.\<close>

definition UKMapSVG_node_color :: "entity \<Rightarrow> string" where
  "UKMapSVG_node_color node =
     (if gt_num (headroom_mw node) 100 then ''#22c55e''
      else if gt_num (headroom_mw node) 50 then ''#f59e0b''
      else ''#ef4444'')"

section \<open>Sample feed records\<close>

text \<open>\<open>a <= b\<close> on values that may be \<open>NaN\<close>: false as soon as one of them is.\<close>

fun num_le :: "jsnum \<Rightarrow> jsnum \<Rightarrow> bool" where
  "num_le (Num a) (Num b) = (a \<le> b)"
| "num_le _ _ = False"

text \<open>
  The Dinorwig and Hornsea entries of \<open>DEFAULT_GENERATORS\<close>: a placed generator with
  no output, and one running at about 70 percent.
\<close>

definition dinorwig :: entity where
  "dinorwig = empty_entity\<lparr>entity_id := Some ''dinorwig'', name := Some ''Dinorwig Hydro'',
      fuel_type := Some ''hydro'',
      coords := Some \<lparr>lat = Some 53.12, lng = Some (-4.11)\<rparr>,
      capacity_mw := Some 1728, output_mw := Some 0\<rparr>"

definition hornsea :: entity where
  "hornsea = empty_entity\<lparr>entity_id := Some ''hornsea'', name := Some ''Hornsea Wind Farm'',
      fuel_type := Some ''wind'',
      coords := Some \<lparr>lat = Some 53.88, lng = Some 1.80\<rparr>,
      capacity_mw := Some 1218, output_mw := Some 850\<rparr>"



text \<open>A generator record without \<open>coords\<close>, and the same with both coordinates zero.\<close>

definition unplaced_generator :: entity where
  "unplaced_generator = empty_entity\<lparr>entity_id := Some ''g1'', name := Some ''Unplaced Wind'',
      fuel_type := Some ''wind'', capacity_mw := Some 100, output_mw := Some 50\<rparr>"

definition zero_placed_generator :: entity where
  "zero_placed_generator = unplaced_generator\<lparr>coords := Some \<lparr>lat = Some 0, lng = Some 0\<rparr>\<rparr>"

section \<open>Interconnector markers\<close>

text \<open>
  \<open>INTERCONNECTOR_ENDPOINTS\<close> (real map) and \<open>countryOffsets\<close> (schematic), with the
  defaults used for an unknown country code.
\<close>

definition INTERCONNECTOR_ENDPOINTS :: "(string \<times> real \<times> real) list" where
  "INTERCONNECTOR_ENDPOINTS =
     [(''FR'', (49.5, 1.5)), (''BE'', (51.2, 3.0)), (''NL'', (52.5, 4.5)),
      (''NO'', (58.0, 5.0)), (''DK'', (55.5, 8.0)), (''IE'', (53.5, -8.5))]"

definition countryOffsets :: "(string \<times> real \<times> real) list" where
  "countryOffsets =
     [(''FR'', (50, 100)), (''BE'', (70, 50)), (''NL'', (90, 30)),
      (''NO'', (30, -80)), (''DK'', (80, -40)), (''IE'', (-60, 20))]"

definition lookup_point :: "(string \<times> real \<times> real) list \<Rightarrow> string option \<Rightarrow> real \<times> real \<Rightarrow> real \<times> real" where
  "lookup_point table key dflt =
     (case key of
        None \<Rightarrow> dflt
      | Some k \<Rightarrow> (case map_of table k of None \<Rightarrow> dflt | Some p \<Rightarrow> p))"

text \<open>
  \<open>InterconnectorLine\<close> of the real-map simulator: \<open>null\<close> without usable coordinates,
  otherwise a line from the UK point to the foreign point. The tooltip names the
  direction from \<open>isImport\<close> alone.
\<close>

record polyline =
  positions :: "(real \<times> real) \<times> (real \<times> real)"
  line_color :: string
  line_weight :: real
  dashArray :: "string option"
  line_direction :: string
  line_source :: entity

definition InterconnectorLine :: "entity \<Rightarrow> polyline option" where
  "InterconnectorLine interconnector =
     (let flow = or_number (flow_mw interconnector) 0;
          isImport = flow > 0;
          color = (if isImport then ''#22c55e'' else if flow < 0 then ''#ef4444'' else ''#6b7280'')
      in if falsy (coords_lat interconnector) \<or> falsy (coords_lng interconnector) then None
         else Some \<lparr>positions =
                      ((the (coords_lat interconnector), the (coords_lng interconnector)),
                       lookup_point INTERCONNECTOR_ENDPOINTS (country_code interconnector) (51, 2)),
                    line_color = color,
                    line_weight = max 2 (\<bar>flow\<bar> / 300),
                    dashArray = (if isImport then None else Some ''10, 10''),
                    line_direction = (if isImport then ''Import'' else ''Export''),
                    line_source = interconnector\<rparr>)"

text \<open>
  \<open>InterconnectorCable\<close> of the schematic simulator: always drawn, from the projected
  position (default point (51, 0)) to the position shifted by the country offset.
\<close>

record svg_cable =
  cable_from :: "real \<times> real"
  cable_to :: "real \<times> real"
  stroke :: string
  strokeWidth :: real
  strokeDasharray :: string
  cable_direction :: string
  cable_source :: entity

definition InterconnectorCable :: "entity \<Rightarrow> svg_cable" where
  "InterconnectorCable interconnector =
     (let pos = latLngToXY (or_number (coords_lat interconnector) 51) (or_number (coords_lng interconnector) 0);
          flow = or_number (flow_mw interconnector) 0;
          isImport = flow > 0;
          color = (if isImport then ''#22c55e'' else if flow < 0 then ''#ef4444'' else ''#6b7280'');
          offset = lookup_point countryOffsets (country_code interconnector) (50, 50)
      in \<lparr>cable_from = pos,
          cable_to = (fst pos + fst offset, snd pos + snd offset),
          stroke = color,
          strokeWidth = max 2 (\<bar>flow\<bar> / 500),
          strokeDasharray = (if isImport then ''none'' else ''5,5''),
          cable_direction = (if isImport then ''Import'' else ''Export''),
          cable_source = interconnector\<rparr>)"

text \<open>
  The interconnector mark of \<open>UKMapSVG\<close> (map overlay): \<open>null\<close> without \<open>coords\<close>;
  a short line of constant width 3, coloured by the sign of the flow field as it is.
\<close>

record svg_link =
  link_pos :: "jsnum \<times> jsnum"
  link_stroke :: string
  link_strokeWidth :: real
  link_direction :: string
  link_source :: entity

definition UKMapSVG_interconnector :: "entity \<Rightarrow> svg_link option" where
  "UKMapSVG_interconnector ic =
     (case coords ic of
        None \<Rightarrow> None
      | Some c \<Rightarrow>
          Some \<lparr>link_pos = toSVG (lat c) (lng c),
                link_stroke = (if gt_num (flow_mw ic) 0 then ''#22c55e''
                               else if lt_num (flow_mw ic) 0 then ''#ef4444'' else ''#6b7280''),
                link_strokeWidth = 3,
                link_direction = (if gt_num (flow_mw ic) 0 then ''import'' else ''export''),
                link_source = ic\<rparr>)"

text \<open>An interconnector anchored at the Moyle landing point, with a settable flow.\<close>

definition moyle :: "real \<Rightarrow> entity" where
  "moyle f = empty_entity\<lparr>entity_id := Some ''moyle'', name := Some ''Moyle'',
      country_code := Some ''IE'', coords := Some \<lparr>lat = Some 55.2, lng = Some (-5.8)\<rparr>,
      flow_mw := Some f, capacity_mw := Some 500\<rparr>"

section \<open>Selection detail panels\<close>

text \<open>
  What a row of a detail panel shows. The numbers are kept as they are before
  \<open>toFixed\<close> rounds them for display; \<open>Percent NaN\<close> is the text \<open>NaN%\<close>.
\<close>

datatype cell =
    Text "string option"
  | GW real
  | MW real
  | Dash
  | Percent jsnum
  | Quantity "real option" string
  | Flow cell string

type_synonym row = "string \<times> cell \<times> string"

datatype section_kind = GeneratorSection | NodeSection | InterconnectorSection

record detail_section =
  kind :: section_kind
  rows :: "row list"

record detail_panel =
  title :: "string option"
  sections :: "detail_section list"

text \<open>\<open>formatMW\<close> of the schematic simulator (always called with a number).\<close>

definition formatMW :: "real \<Rightarrow> cell" where
  "formatMW mw = (if mw \<ge> 1000 then GW (mw / 1000) else MW mw)"

text \<open>\<open>formatMW\<close> of the real-map simulator: a dash for a missing value.\<close>

definition formatMW_dash :: "real option \<Rightarrow> cell" where
  "formatMW_dash mw =
     (case mw of
        None \<Rightarrow> Dash
      | Some v \<Rightarrow> if \<bar>v\<bar> \<ge> 1000 then GW (v / 1000) else MW v)"

text \<open>\<open>x >= c\<close> on a numeric field.\<close>

definition ge_num :: "real option \<Rightarrow> real \<Rightarrow> bool" where
  "ge_num x c = (case x of None \<Rightarrow> False | Some v \<Rightarrow> v \<ge> c)"

text \<open>The structural kind tests shared by both panels.\<close>

definition isGenerator :: "entity \<Rightarrow> bool" where
  "isGenerator selection = (fuel_type selection \<noteq> None)"

definition isNode :: "entity \<Rightarrow> bool" where
  "isNode selection = (node_type selection \<noteq> None)"

definition isInterconnector :: "entity \<Rightarrow> bool" where
  "isInterconnector selection = (country_code selection \<noteq> None)"

definition headroom_class :: "string \<Rightarrow> entity \<Rightarrow> string" where
  "headroom_class prefix selection =
     prefix @ (if gt_num (headroom_mw selection) 100 then ''text-green-400''
               else if gt_num (headroom_mw selection) 50 then ''text-amber-400''
               else ''text-red-400'')"

definition node_rows :: "string \<Rightarrow> entity \<Rightarrow> row list" where
  "node_rows prefix selection =
     [(''Type'', Text (node_type selection), ''text-white''),
      (''Voltage'', Quantity (voltage_kv selection) ''kV'', ''text-white''),
      (''Headroom'', Quantity (headroom_mw selection) ''MW'', headroom_class prefix selection),
      (''Current Load'', Quantity (load_mw selection) ''MW'', ''text-white'')]"

definition flow_class :: "entity \<Rightarrow> string" where
  "flow_class selection =
     (if ge_num (flow_mw selection) 0 then ''text-green-400'' else ''text-red-400'')"

definition flow_direction :: "entity \<Rightarrow> string" where
  "flow_direction selection =
     (if ge_num (flow_mw selection) 0 then ''(Import)'' else ''(Export)'')"

text \<open>\<open>SelectionDetailPanel\<close> of the schematic simulator.\<close>

definition SelectionDetailPanel_capacityFactor :: "entity \<Rightarrow> jsnum" where
  "SelectionDetailPanel_capacityFactor selection =
     num_times (num_div (to_num (output_mw selection)) (or_number (capacity_mw selection) 1)) 100"

definition SelectionDetailPanel_generator_rows :: "entity \<Rightarrow> row list" where
  "SelectionDetailPanel_generator_rows selection =
     [(''Type'', Text (fuel_type selection), ''text-white''),
      (''Output'', formatMW (or_number (output_mw selection) 0), ''text-white''),
      (''Capacity'', formatMW (or_number (capacity_mw selection) 0), ''text-white''),
      (''Capacity Factor'', Percent (SelectionDetailPanel_capacityFactor selection), ''text-white'')]
     @ (case bids_mw selection of
          None \<Rightarrow> []
        | Some b \<Rightarrow> if b > 0 then [(''Bids'', formatMW b, ''text-red-400'')] else [])
     @ (case offers_mw selection of
          None \<Rightarrow> []
        | Some f \<Rightarrow> if f > 0 then [(''Offers'', formatMW f, ''text-green-400'')] else [])"

definition SelectionDetailPanel_interconnector_rows :: "entity \<Rightarrow> row list" where
  "SelectionDetailPanel_interconnector_rows selection =
     [(''Country'', Text (country_code selection), ''text-white''),
      (''Capacity'', formatMW (or_number (capacity_mw selection) 0), ''text-white''),
      (''Flow'', Flow (formatMW \<bar>or_number (flow_mw selection) 0\<bar>) (flow_direction selection),
         flow_class selection)]"

definition SelectionDetailPanel :: "entity option \<Rightarrow> detail_panel option" where
  "SelectionDetailPanel sel =
     (case sel of
        None \<Rightarrow> None
      | Some selection \<Rightarrow>
          Some \<lparr>title = name selection,
                sections =
                  (if isGenerator selection
                   then [\<lparr>kind = GeneratorSection,
                          rows = SelectionDetailPanel_generator_rows selection\<rparr>] else [])
                  @ (if isNode selection
                     then [\<lparr>kind = NodeSection, rows = node_rows [] selection\<rparr>] else [])
                  @ (if isInterconnector selection
                     then [\<lparr>kind = InterconnectorSection,
                            rows = SelectionDetailPanel_interconnector_rows selection\<rparr>] else [])\<rparr>)"

text \<open>\<open>SelectionPanel\<close> of the real-map simulator.\<close>

definition SelectionPanel_capacityFactor :: "entity \<Rightarrow> jsnum" where
  "SelectionPanel_capacityFactor selection =
     Num ((or_number (output_mw selection) 0 / or_number (capacity_mw selection) 1) * 100)"

definition SelectionPanel_generator_rows :: "entity \<Rightarrow> row list" where
  "SelectionPanel_generator_rows selection =
     [(''Type'', Text (fuel_type selection), ''text-white''),
      (''Output'', formatMW_dash (output_mw selection), ''text-white''),
      (''Capacity'', formatMW_dash (capacity_mw selection), ''text-white''),
      (''Capacity Factor'', Percent (SelectionPanel_capacityFactor selection), ''text-white'')]"

definition SelectionPanel_interconnector_rows :: "entity \<Rightarrow> row list" where
  "SelectionPanel_interconnector_rows selection =
     [(''Country'', Text (country_code selection), ''text-white''),
      (''Capacity'', formatMW_dash (capacity_mw selection), ''text-white''),
      (''Flow'', Flow (formatMW_dash (map_option abs (flow_mw selection))) (flow_direction selection),
         flow_class selection)]"

definition SelectionPanel :: "entity option \<Rightarrow> detail_panel option" where
  "SelectionPanel sel =
     (case sel of
        None \<Rightarrow> None
      | Some selection \<Rightarrow>
          Some \<lparr>title = name selection,
                sections =
                  (if isGenerator selection
                   then [\<lparr>kind = GeneratorSection,
                          rows = SelectionPanel_generator_rows selection\<rparr>] else [])
                  @ (if isNode selection
                     then [\<lparr>kind = NodeSection, rows = node_rows ''font-medium '' selection\<rparr>] else [])
                  @ (if isInterconnector selection
                     then [\<lparr>kind = InterconnectorSection,
                            rows = SelectionPanel_interconnector_rows selection\<rparr>] else [])\<rparr>)"

text \<open>
  Three selections: a record carrying both a fuel type and a country code, and the two
  records that carry only one of them.
\<close>

definition only_generator :: entity where
  "only_generator = empty_entity\<lparr>name := Some ''Hybrid Link'', fuel_type := Some ''wind'',
      output_mw := Some 50, capacity_mw := Some 100\<rparr>"



text \<open>A generator with zero capacity and an output of 5 MW.\<close>

definition zero_capacity_generator :: entity where
  "zero_capacity_generator = empty_entity\<lparr>name := Some ''Test Unit'', fuel_type := Some ''gas'',
      output_mw := Some 5, capacity_mw := Some 0\<rparr>"

section \<open>Layer data from the overlay document\<close>

text \<open>
  The overlay document: an object with \<open>layers\<close>, keyed by layer kind, each layer an
  object with a \<open>data\<close> array. Every level may be missing.
\<close>

record layer_doc =
  data :: "entity list option"

record layers_doc =
  generators :: "layer_doc option"
  interconnectors :: "layer_doc option"
  grid_nodes :: "layer_doc option"
  carbon_intensity :: "layer_doc option"

record overlay_doc =
  timestamp :: "string option"
  layers :: "layers_doc option"

text \<open>
  \<open>overlay?.layers?.<kind>?.data || []\<close>, written once for the four layer kinds; an
  array, even an empty one, is truthy and is kept.
\<close>

definition layer_data :: "overlay_doc option \<Rightarrow> (layers_doc \<Rightarrow> layer_doc option) \<Rightarrow> entity list" where
  "layer_data ov layer_kind =
     (case ov of
        None \<Rightarrow> []
      | Some doc \<Rightarrow>
          (case layers doc of
             None \<Rightarrow> []
           | Some ls \<Rightarrow>
               (case layer_kind ls of
                  None \<Rightarrow> []
                | Some l \<Rightarrow> (case data l of None \<Rightarrow> [] | Some d \<Rightarrow> d))))"

text \<open>The static default sets of the real-map simulator.\<close>

definition default_gsp :: "string \<Rightarrow> string \<Rightarrow> real \<Rightarrow> real \<Rightarrow> real \<Rightarrow> real \<Rightarrow> real \<Rightarrow> entity" where
  "default_gsp i n la lo kv headroom load =
     empty_entity\<lparr>entity_id := Some i, name := Some n,
       coords := Some \<lparr>lat = Some la, lng = Some lo\<rparr>,
       voltage_kv := Some kv, headroom_mw := Some headroom, load_mw := Some load\<rparr>"

definition default_generator :: "string \<Rightarrow> string \<Rightarrow> string \<Rightarrow> real \<Rightarrow> real \<Rightarrow> real \<Rightarrow> real \<Rightarrow> entity" where
  "default_generator i n fuel la lo cap out =
     empty_entity\<lparr>entity_id := Some i, name := Some n, fuel_type := Some fuel,
       coords := Some \<lparr>lat = Some la, lng = Some lo\<rparr>,
       capacity_mw := Some cap, output_mw := Some out\<rparr>"

definition DEFAULT_GSPS :: "entity list" where
  "DEFAULT_GSPS =
     [default_gsp ''didcot'' ''Didcot 400kV'' 51.62 (-1.27) 400 120 850,
      default_gsp ''london'' ''London GSP'' 51.51 (-0.13) 400 45 2100,
      default_gsp ''manchester'' ''Manchester GSP'' 53.48 (-2.24) 400 85 1200,
      default_gsp ''birmingham'' ''Birmingham GSP'' 52.49 (-1.90) 400 72 980,
      default_gsp ''edinburgh'' ''Edinburgh GSP'' 55.95 (-3.19) 275 95 650,
      default_gsp ''glasgow'' ''Glasgow GSP'' 55.86 (-4.25) 400 110 720,
      default_gsp ''cardiff'' ''Cardiff GSP'' 51.48 (-3.18) 275 88 420,
      default_gsp ''bristol'' ''Bristol GSP'' 51.45 (-2.58) 275 65 580,
      default_gsp ''newcastle'' ''Newcastle GSP'' 54.98 (-1.61) 275 92 490,
      default_gsp ''leeds'' ''Leeds GSP'' 53.80 (-1.55) 275 78 620,
      default_gsp ''liverpool'' ''Liverpool GSP'' 53.41 (-2.98) 275 82 540,
      default_gsp ''sheffield'' ''Sheffield GSP'' 53.38 (-1.47) 275 68 480,
      default_gsp ''cambridge'' ''Cambridge GSP'' 52.21 0.12 132 105 320,
      default_gsp ''oxford'' ''Oxford GSP'' 51.75 (-1.26) 132 98 280,
      default_gsp ''reading'' ''Reading GSP'' 51.45 (-0.97) 275 55 410,
      default_gsp ''southampton'' ''Southampton GSP'' 50.91 (-1.40) 275 73 380,
      default_gsp ''norwich'' ''Norwich GSP'' 52.63 1.30 132 115 260,
      default_gsp ''nottingham'' ''Nottingham GSP'' 52.95 (-1.15) 275 62 450,
      default_gsp ''leicester'' ''Leicester GSP'' 52.64 (-1.13) 275 58 390,
      default_gsp ''aberdeen'' ''Aberdeen GSP'' 57.15 (-2.09) 275 125 280,
      default_gsp ''inverness'' ''Inverness GSP'' 57.48 (-4.22) 132 140 180,
      default_gsp ''dundee'' ''Dundee GSP'' 56.46 (-2.97) 132 95 220,
      default_gsp ''swansea'' ''Swansea GSP'' 51.62 (-3.94) 275 85 290,
      default_gsp ''plymouth'' ''Plymouth GSP'' 50.38 (-4.14) 132 92 240,
      default_gsp ''exeter'' ''Exeter GSP'' 50.72 (-3.53) 132 102 210]"

definition DEFAULT_GENERATORS :: "entity list" where
  "DEFAULT_GENERATORS =
     [default_generator ''drax'' ''Drax Power Station'' ''biomass'' 53.74 (-0.99) 2595 1800,
      default_generator ''sizewell'' ''Sizewell B'' ''nuclear'' 52.21 1.62 1198 1150,
      default_generator ''hinkley'' ''Hinkley Point B'' ''nuclear'' 51.21 (-3.13) 965 920,
      default_generator ''hornsea'' ''Hornsea Wind Farm'' ''wind'' 53.88 1.80 1218 850,
      default_generator ''dogger'' ''Dogger Bank Wind'' ''wind'' 54.75 2.20 1200 780,
      default_generator ''dinorwig'' ''Dinorwig Hydro'' ''hydro'' 53.12 (-4.11) 1728 0,
      default_generator ''ccgt_pembroke'' ''Pembroke CCGT'' ''gas'' 51.68 (-4.99) 2180 1450,
      default_generator ''ccgt_carrington'' ''Carrington CCGT'' ''gas'' 53.43 (-2.41) 884 620]"

text \<open>
  Layer extraction in the real-map simulator: generators and grid nodes fall back to the
  default sets when the extracted array has no element.
\<close>

definition GridSimulatorMap_generators :: "overlay_doc option \<Rightarrow> entity list" where
  "GridSimulatorMap_generators ov =
     (let apiData = layer_data ov generators
      in if length apiData > 0 then apiData else DEFAULT_GENERATORS)"

definition GridSimulatorMap_interconnectors :: "overlay_doc option \<Rightarrow> entity list" where
  "GridSimulatorMap_interconnectors ov = layer_data ov interconnectors"

definition GridSimulatorMap_gridNodes :: "overlay_doc option \<Rightarrow> entity list" where
  "GridSimulatorMap_gridNodes ov =
     (let apiData = layer_data ov grid_nodes
      in if length apiData > 0 then apiData else DEFAULT_GSPS)"

definition GridSimulatorMap_carbonRegions :: "overlay_doc option \<Rightarrow> entity list" where
  "GridSimulatorMap_carbonRegions ov = layer_data ov carbon_intensity"

text \<open>Layer extraction in the schematic simulator: no default set.\<close>

definition GridSimulator_generators :: "overlay_doc option \<Rightarrow> entity list" where
  "GridSimulator_generators ov = layer_data ov generators"


definition GridSimulator_gridNodes :: "overlay_doc option \<Rightarrow> entity list" where
  "GridSimulator_gridNodes ov = layer_data ov grid_nodes"


text \<open>An overlay document in which every layer is present with an empty \<open>data\<close> array.\<close>

definition empty_layers_overlay :: overlay_doc where
  "empty_layers_overlay =
     \<lparr>timestamp = Some ''2025-01-01T00:00:00Z'',
      layers = Some \<lparr>generators = Some \<lparr>data = Some []\<rparr>,
                     interconnectors = Some \<lparr>data = Some []\<rparr>,
                     grid_nodes = Some \<lparr>data = Some []\<rparr>,
                     carbon_intensity = Some \<lparr>data = Some []\<rparr>\<rparr>\<rparr>"

section \<open>Polling\<close>

text \<open>
  The outcome of one request of a poll cycle: the request or the parsing of its body
  was rejected (the promise rejects with a message), the response was not 2xx, or a
  document was received.
\<close>

datatype 'a fetched = Rejected string | NotOk | Json 'a

text \<open>
  The snapshot is stored as received; the fields kept here are the two totals. An
  opportunities document carries the list under \<open>opportunities\<close>.
\<close>

record snapshot_doc =
  generation_total_mw :: "real option"
  demand_total_mw :: "real option"

record opportunity =
  action :: string
  confidence :: real
  reason :: string
  opportunity_type :: string

record opportunities_doc =
  opportunities :: "opportunity list option"

text \<open>\<open>oppsRes?.opportunities || []\<close> and \<open>opps.opportunities || []\<close>.\<close>

definition opportunities_or_empty :: "opportunities_doc option \<Rightarrow> opportunity list" where
  "opportunities_or_empty res =
     (case res of
        None \<Rightarrow> []
      | Some d \<Rightarrow> (case opportunities d of None \<Rightarrow> [] | Some l \<Rightarrow> l))"

text \<open>
  \<open>useGridData\<close> of the schematic and real-map simulators. Each request is
  \<open>fetch(url).then(r => r.ok ? r.json() : null)\<close>: a non-2xx response resolves to
  \<open>null\<close>. \<open>Promise.all\<close> rejects as soon as one request rejects; the message kept
  is that of the first rejected request in the order of the array.
\<close>

record grid_data =
  snapshot :: "snapshot_doc option"
  overlay :: "overlay_doc option"
  stored_opportunities :: "opportunity list"
  loading :: bool
  error :: "string option"
  lastUpdate :: "nat option"

definition then_ok_json :: "'a fetched \<Rightarrow> string + 'a option" where
  "then_ok_json r =
     (case r of Rejected msg \<Rightarrow> Inl msg | NotOk \<Rightarrow> Inr None | Json v \<Rightarrow> Inr (Some v))"

definition fetchData ::
  "grid_data \<Rightarrow> snapshot_doc fetched \<Rightarrow> overlay_doc fetched \<Rightarrow> opportunities_doc fetched \<Rightarrow> nat \<Rightarrow> grid_data" where
  "fetchData prev snapshotReq overlayReq oppsReq now =
     (case then_ok_json snapshotReq of
        Inl msg \<Rightarrow> prev\<lparr>loading := False, error := Some msg\<rparr>
      | Inr snapshotRes \<Rightarrow>
          (case then_ok_json overlayReq of
             Inl msg \<Rightarrow> prev\<lparr>loading := False, error := Some msg\<rparr>
           | Inr overlayRes \<Rightarrow>
               (case then_ok_json oppsReq of
                  Inl msg \<Rightarrow> prev\<lparr>loading := False, error := Some msg\<rparr>
                | Inr oppsRes \<Rightarrow>
                    \<lparr>snapshot = snapshotRes,
                     overlay = overlayRes,
                     stored_opportunities = opportunities_or_empty oppsRes,
                     loading = False,
                     error = None,
                     lastUpdate = Some now\<rparr>)))"

text \<open>
  The map overlay: each fetch helper catches every failure and returns \<open>null\<close>;
  \<open>refreshData\<close> stores a document only when it is not \<open>null\<close>.
\<close>

record overlay_state =
  overlayState :: "overlay_doc option"
  overlay_snapshot :: "snapshot_doc option"
  overlay_opportunities :: "opportunity list"
  overlay_loading :: bool
  overlay_error :: "string option"

definition fetch_or_null :: "'a fetched \<Rightarrow> 'a option" where
  "fetch_or_null r = (case r of Json v \<Rightarrow> Some v | _ \<Rightarrow> None)"

definition refreshData ::
  "overlay_state \<Rightarrow> overlay_doc fetched \<Rightarrow> snapshot_doc fetched \<Rightarrow> opportunities_doc fetched \<Rightarrow> overlay_state" where
  "refreshData st overlayReq snapReq oppsReq =
     \<lparr>overlayState =
        (case fetch_or_null overlayReq of None \<Rightarrow> overlayState st | Some ov \<Rightarrow> Some ov),
      overlay_snapshot =
        (case fetch_or_null snapReq of None \<Rightarrow> overlay_snapshot st | Some snap \<Rightarrow> Some snap),
      overlay_opportunities =
        (case fetch_or_null oppsReq of
           None \<Rightarrow> overlay_opportunities st
         | Some opps \<Rightarrow> opportunities_or_empty (Some opps)),
      overlay_loading = False,
      overlay_error = None\<rparr>"

text \<open>
  A store holding the documents of an earlier cycle, and the documents of the next one.
\<close>

definition old_snapshot :: snapshot_doc where
  "old_snapshot = \<lparr>generation_total_mw = Some 30000, demand_total_mw = Some 29000\<rparr>"

definition new_snapshot :: snapshot_doc where
  "new_snapshot = \<lparr>generation_total_mw = Some 31000, demand_total_mw = Some 30500\<rparr>"

definition old_overlay :: overlay_doc where
  "old_overlay =
     \<lparr>timestamp = Some ''2025-01-01T00:00:00Z'',
      layers = Some \<lparr>generators = Some \<lparr>data = Some [dinorwig]\<rparr>,
                     interconnectors = None, grid_nodes = None, carbon_intensity = None\<rparr>\<rparr>"

definition new_overlay :: overlay_doc where
  "new_overlay =
     \<lparr>timestamp = Some ''2025-01-01T00:01:00Z'',
      layers = Some \<lparr>generators = Some \<lparr>data = Some [dinorwig, unplaced_generator]\<rparr>,
                     interconnectors = None, grid_nodes = None, carbon_intensity = None\<rparr>\<rparr>"

definition charge_now :: opportunity where
  "charge_now = \<lparr>action = ''CHARGE_STORAGE'', confidence = 0.8, reason = ''low price'',
      opportunity_type = ''storage''\<rparr>"

definition new_opportunities :: opportunities_doc where
  "new_opportunities = \<lparr>opportunities = Some [charge_now]\<rparr>"

definition store_before :: grid_data where
  "store_before =
     \<lparr>snapshot = Some old_snapshot, overlay = Some old_overlay, stored_opportunities = [],
      loading = False, error = None, lastUpdate = Some 0\<rparr>"

definition overlay_store_before :: overlay_state where
  "overlay_store_before =
     \<lparr>overlayState = Some old_overlay, overlay_snapshot = Some old_snapshot,
      overlay_opportunities = [], overlay_loading = False, overlay_error = None\<rparr>"

section \<open>Carbon regions and grid nodes\<close>














section \<open>Render scenes\<close>














section \<open>Properties\<close>

text \<open>
  C5. For every grid node the headroom colour band is: above 100 MW the high (green)
  band, above 50 and up to 100 MW the medium (amber) band, 50 MW and below the low
  (red) band. In particular 51 MW is amber and 50 MW is red. This holds for
  \<open>getHeadroomColor\<close>, \<open>headroomColor\<close>, both \<open>GridNodeMarker\<close>s and the node
  colour of \<open>UKMapSVG\<close>; the three band colours are pairwise different.
\<close>

theorem headroom_bands:
  "(100 < h \<longrightarrow> getHeadroomColor h = ''#22c55e'' \<and> headroomColor h = ''#22c55e''
       \<and> GridNodeMarker_color (node\<lparr>headroom_mw := Some h\<rparr>) = ''#22c55e''
       \<and> UKMapSVG_node_color (node\<lparr>headroom_mw := Some h\<rparr>) = ''#22c55e'')
   \<and> (50 < h \<and> h \<le> 100 \<longrightarrow> getHeadroomColor h = ''#f59e0b'' \<and> headroomColor h = ''#f59e0b''
       \<and> GridNodeMarker_color (node\<lparr>headroom_mw := Some h\<rparr>) = ''#f59e0b''
       \<and> UKMapSVG_node_color (node\<lparr>headroom_mw := Some h\<rparr>) = ''#f59e0b'')
   \<and> (h \<le> 50 \<longrightarrow> getHeadroomColor h = ''#ef4444'' \<and> headroomColor h = ''#ef4444''
       \<and> GridNodeMarker_color (node\<lparr>headroom_mw := Some h\<rparr>) = ''#ef4444''
       \<and> UKMapSVG_node_color (node\<lparr>headroom_mw := Some h\<rparr>) = ''#ef4444'')
   \<and> getHeadroomColor 51 = ''#f59e0b'' \<and> getHeadroomColor 50 = ''#ef4444''
   \<and> headroomColor 51 = ''#f59e0b'' \<and> headroomColor 50 = ''#ef4444''
   \<and> ''#22c55e'' \<noteq> ''#f59e0b'' \<and> ''#f59e0b'' \<noteq> ''#ef4444'' \<and> ''#22c55e'' \<noteq> ''#ef4444''"
  by (simp add: getHeadroomColor_def headroomColor_def GridNodeMarker_color_def
        UKMapSVG_node_color_def or_number_def gt_num_def Let_def)

theorem headroom_bands_witness:
  "getHeadroomColor 120 = ''#22c55e'' \<and> GridNodeMarker_color (empty_entity\<lparr>headroom_mw := Some 120\<rparr>) = ''#22c55e''
   \<and> getHeadroomColor 75 = ''#f59e0b'' \<and> UKMapSVG_node_color (empty_entity\<lparr>headroom_mw := Some 75\<rparr>) = ''#f59e0b''
   \<and> getHeadroomColor 20 = ''#ef4444'' \<and> headroomColor 20 = ''#ef4444''"
  using headroom_bands [of 120 empty_entity] headroom_bands [of 75 empty_entity]
    headroom_bands [of 20 empty_entity]
  by simp

subsection \<open>Helper facts\<close>

lemma or_number_nonzero: "d \<noteq> 0 \<Longrightarrow> or_number x d \<noteq> 0"
  by (simp add: or_number_def split: option.splits)

lemma or_number_falsy: "falsy x \<Longrightarrow> or_number x d = d"
  by (simp add: falsy_def or_number_def split: option.splits)

lemma GeneratorMarker_fillOpacity:
  "GeneratorMarker g = Some m \<Longrightarrow> fillOpacity m = max 0.3 (GeneratorMarker_capFactor g)"
  by (auto simp add: GeneratorMarker_def split: if_splits)

lemma UKMapSVG_generator_opacity:
  "UKMapSVG_generator g = Some c \<Longrightarrow> circle_opacity c = 0.8"
  by (auto simp add: UKMapSVG_generator_def split: option.splits if_splits)

text \<open>
  C10. Every generator marker that is rendered has an opacity of at least 0.3. The
  schematic icon and the real-map marker take the larger of 0.3 and the ratio of output
  to capacity: a generator whose output is zero or absent is drawn at exactly 0.3, and
  one whose ratio is 0.3 or more at that ratio. The map overlay and the static-data maps
  use the constants 0.8 and 0.7. (The opacity chosen for a whole layer is set on the
  group around the marker, not on the marker.)
\<close>

theorem generator_opacity_floor:
  "0.3 \<le> gen_opacity (AnimatedGeneratorIcon scale sel g)
   \<and> (falsy (output_mw g) \<longrightarrow> gen_opacity (AnimatedGeneratorIcon scale sel g) = 0.3)
   \<and> (GeneratorMarker g = Some m \<longrightarrow>
        0.3 \<le> fillOpacity m \<and> (falsy (output_mw g) \<longrightarrow> fillOpacity m = 0.3))
   \<and> (output_mw g = Some out \<and> capacity_mw g = Some cap \<and> out \<noteq> 0 \<and> cap \<noteq> 0
        \<and> 0.3 \<le> out / cap \<longrightarrow>
        gen_opacity (AnimatedGeneratorIcon scale sel g) = out / cap
        \<and> (GeneratorMarker g = Some m \<longrightarrow> fillOpacity m = out / cap))
   \<and> (UKMapSVG_generator g = Some c \<longrightarrow> 0.3 \<le> circle_opacity c)
   \<and> 0.3 \<le> static_generator_fillOpacity"
proof (intro conjI impI)
  show "0.3 \<le> gen_opacity (AnimatedGeneratorIcon scale sel g)"
    by (simp add: AnimatedGeneratorIcon_def AnimatedGeneratorIcon_capFactor_def)
  show "gen_opacity (AnimatedGeneratorIcon scale sel g) = 0.3" if "falsy (output_mw g)"
    using that
    by (simp add: AnimatedGeneratorIcon_def AnimatedGeneratorIcon_capFactor_def or_number_falsy)
  show "0.3 \<le> fillOpacity m" if "GeneratorMarker g = Some m"
    using GeneratorMarker_fillOpacity [OF that] by simp
  show "fillOpacity m = 0.3" if "GeneratorMarker g = Some m" "falsy (output_mw g)"
    using GeneratorMarker_fillOpacity [OF that(1)] that(2)
    by (simp add: GeneratorMarker_capFactor_def or_number_falsy)
  show "gen_opacity (AnimatedGeneratorIcon scale sel g) = out / cap"
    if "output_mw g = Some out \<and> capacity_mw g = Some cap \<and> out \<noteq> 0 \<and> cap \<noteq> 0
        \<and> 0.3 \<le> out / cap"
  proof -
    from that have fields: "output_mw g = Some out" "capacity_mw g = Some cap"
      and nz: "out \<noteq> 0" "cap \<noteq> 0" and r: "0.3 \<le> out / cap"
      by blast+
    have "max 0.3 (out / cap) = out / cap"
      using r by (rule max_absorb2)
    then show ?thesis
      by (simp add: AnimatedGeneratorIcon_def AnimatedGeneratorIcon_capFactor_def or_number_def
          fields nz)
  qed
  show "fillOpacity m = out / cap"
    if "output_mw g = Some out \<and> capacity_mw g = Some cap \<and> out \<noteq> 0 \<and> cap \<noteq> 0
        \<and> 0.3 \<le> out / cap" "GeneratorMarker g = Some m"
  proof -
    from that(1) have fields: "output_mw g = Some out" "capacity_mw g = Some cap"
      and nz: "out \<noteq> 0" "cap \<noteq> 0" and r: "0.3 \<le> out / cap"
      by blast+
    have "max 0.3 (out / cap) = out / cap"
      using r by (rule max_absorb2)
    then show ?thesis
      using GeneratorMarker_fillOpacity [OF that(2)]
      by (simp add: GeneratorMarker_capFactor_def or_number_def fields nz)
  qed
  show "0.3 \<le> circle_opacity c" if "UKMapSVG_generator g = Some c"
    using UKMapSVG_generator_opacity [OF that] by simp
  show "0.3 \<le> static_generator_fillOpacity"
    by (simp add: static_generator_fillOpacity_def)
qed

theorem generator_opacity_floor_witness:
  "falsy (output_mw dinorwig)
   \<and> gen_opacity (AnimatedGeneratorIcon 1 False dinorwig) = 0.3
   \<and> GeneratorMarker dinorwig \<noteq> None
   \<and> fillOpacity (the (GeneratorMarker dinorwig)) = 0.3
   \<and> UKMapSVG_generator dinorwig \<noteq> None
   \<and> 0.3 \<le> circle_opacity (the (UKMapSVG_generator dinorwig))
   \<and> gen_opacity (AnimatedGeneratorIcon 1 False hornsea) = 850 / 1218
   \<and> GeneratorMarker hornsea \<noteq> None
   \<and> fillOpacity (the (GeneratorMarker hornsea)) = 850 / 1218"
proof -
  define m where "m = the (GeneratorMarker dinorwig)"
  define c where "c = the (UKMapSVG_generator dinorwig)"
  define h where "h = the (GeneratorMarker hornsea)"
  have f: "falsy (output_mw dinorwig)"
    by (simp add: dinorwig_def empty_entity_def falsy_def)
  have m: "GeneratorMarker dinorwig = Some m"
    unfolding m_def
    by (simp add: GeneratorMarker_def dinorwig_def empty_entity_def falsy_def
          coords_lat_def coords_lng_def)
  have c: "UKMapSVG_generator dinorwig = Some c"
    unfolding c_def
    by (simp add: UKMapSVG_generator_def dinorwig_def empty_entity_def)
  have h: "GeneratorMarker hornsea = Some h"
    unfolding h_def
    by (simp add: GeneratorMarker_def hornsea_def empty_entity_def falsy_def
          coords_lat_def coords_lng_def)
  have fields: "output_mw hornsea = Some 850" "capacity_mw hornsea = Some 1218"
    by (simp_all add: hornsea_def empty_entity_def)
  have idle: "gen_opacity (AnimatedGeneratorIcon 1 False dinorwig) = 0.3 \<and> fillOpacity m = 0.3
      \<and> 0.3 \<le> circle_opacity c"
    using generator_opacity_floor [of 1 False dinorwig m 0 1 c] f m c by simp
  have busy: "gen_opacity (AnimatedGeneratorIcon 1 False hornsea) = 850 / 1218
      \<and> fillOpacity h = 850 / 1218"
    using generator_opacity_floor [of 1 False hornsea h 850 1218 c] h fields by simp
  show ?thesis
    using f m c h idle busy
    by (simp add: m_def [symmetric] c_def [symmetric] h_def [symmetric])
qed

















text \<open>
  C4. A generator whose position is absent or zero is to be left out of the scene, never
  drawn at a substitute point. The real-map marker and the map overlay do leave out the
  two sample generators; the schematic icon draws both at the projection of the default
  point (54, -2), that is at (240, 2000/7) on the 400 by 500 surface.
\<close>

theorem AnimatedGeneratorIcon_default_point:
  "coords unplaced_generator = None
   \<and> gen_pos (AnimatedGeneratorIcon 1 False unplaced_generator) = latLngToXY 54 (-2)
   \<and> gen_pos (AnimatedGeneratorIcon 1 False zero_placed_generator) = latLngToXY 54 (-2)
   \<and> latLngToXY 54 (-2) = (240, 2000 / 7)
   \<and> GeneratorMarker unplaced_generator = None
   \<and> GeneratorMarker zero_placed_generator = None
   \<and> UKMapSVG_generator unplaced_generator = None
   \<and> UKMapSVG_generator zero_placed_generator = None"
  by (simp add: unplaced_generator_def zero_placed_generator_def empty_entity_def
      AnimatedGeneratorIcon_def GeneratorMarker_def UKMapSVG_generator_def
      coords_lat_def coords_lng_def or_number_def falsy_def latLngToXY_def)

text \<open>The real-map marker leaves out every generator with an absent or zero coordinate.\<close>

lemma GeneratorMarker_excludes_unplaceable:
  "falsy (coords_lat g) \<or> falsy (coords_lng g) \<Longrightarrow> GeneratorMarker g = None"
  by (simp add: GeneratorMarker_def)

lemma or_number_simps:
  "or_number None d = d" "or_number (Some v) d = (if v = 0 then d else v)"
  by (simp_all add: or_number_def)

lemma cmp_num_simps:
  "gt_num None c = False" "gt_num (Some v) c = (c < v)"
  "lt_num None c = False" "lt_num (Some v) c = (v < c)"
  by (simp_all add: gt_num_def lt_num_def)

lemma InterconnectorLine_Some:
  "InterconnectorLine ic = Some l \<Longrightarrow>
     line_color l = (if or_number (flow_mw ic) 0 > 0 then ''#22c55e''
                     else if or_number (flow_mw ic) 0 < 0 then ''#ef4444'' else ''#6b7280'')
     \<and> line_weight l = max 2 (\<bar>or_number (flow_mw ic) 0\<bar> / 300)
     \<and> line_direction l = (if or_number (flow_mw ic) 0 > 0 then ''Import'' else ''Export'')"
  by (auto simp add: InterconnectorLine_def Let_def split: if_splits)

lemma UKMapSVG_interconnector_Some:
  "UKMapSVG_interconnector ic = Some k \<Longrightarrow>
     link_stroke k = (if gt_num (flow_mw ic) 0 then ''#22c55e''
                      else if lt_num (flow_mw ic) 0 then ''#ef4444'' else ''#6b7280'')
     \<and> link_strokeWidth k = 3
     \<and> link_direction k = (if gt_num (flow_mw ic) 0 then ''import'' else ''export'')"
  by (auto simp add: UKMapSVG_interconnector_def split: option.splits)

text \<open>
  The drawn width is not proportional to the flow: flows of -250 MW and -500 MW are both
  drawn 2 wide by the real-map line and the schematic cable, and 3 wide by the map overlay.
\<close>

theorem interconnector_width_counterexample:
  "map_option line_weight (InterconnectorLine (moyle (-250))) = Some 2
   \<and> map_option line_weight (InterconnectorLine (moyle (-500))) = Some 2
   \<and> strokeWidth (InterconnectorCable (moyle (-250))) = 2
   \<and> strokeWidth (InterconnectorCable (moyle (-500))) = 2
   \<and> map_option link_strokeWidth (UKMapSVG_interconnector (moyle (-250))) = Some 3
   \<and> map_option link_strokeWidth (UKMapSVG_interconnector (moyle (-500))) = Some 3"
  by (simp add: moyle_def empty_entity_def InterconnectorLine_def InterconnectorCable_def
      UKMapSVG_interconnector_def coords_lat_def coords_lng_def or_number_def falsy_def Let_def)

text \<open>
  C6 (amended). For every interconnector a negative flow is coloured red and named an
  export, a positive flow is coloured green and named an import, and a zero or absent
  flow is coloured grey. The drawn width is the larger of 2 and the flow magnitude over
  300 (real map) or over 500 (schematic): it equals the floor 2 up to 600 MW (1000 MW)
  and is proportional to the magnitude only from there on; the map overlay draws the
  constant width 3. In particular a flow of -250 MW is an export, red, of width 2.
\<close>

theorem interconnector_flow_rendering:
  "(flow_mw ic = Some f \<and> f < 0 \<longrightarrow>
      stroke (InterconnectorCable ic) = ''#ef4444''
      \<and> cable_direction (InterconnectorCable ic) = ''Export''
      \<and> (InterconnectorLine ic = Some l \<longrightarrow> line_color l = ''#ef4444'' \<and> line_direction l = ''Export'')
      \<and> (UKMapSVG_interconnector ic = Some k \<longrightarrow> link_stroke k = ''#ef4444'' \<and> link_direction k = ''export''))
   \<and> (flow_mw ic = Some f \<and> 0 < f \<longrightarrow>
      stroke (InterconnectorCable ic) = ''#22c55e''
      \<and> cable_direction (InterconnectorCable ic) = ''Import''
      \<and> (InterconnectorLine ic = Some l \<longrightarrow> line_color l = ''#22c55e'' \<and> line_direction l = ''Import'')
      \<and> (UKMapSVG_interconnector ic = Some k \<longrightarrow> link_stroke k = ''#22c55e'' \<and> link_direction k = ''import''))
   \<and> (falsy (flow_mw ic) \<longrightarrow>
      stroke (InterconnectorCable ic) = ''#6b7280''
      \<and> (InterconnectorLine ic = Some l \<longrightarrow> line_color l = ''#6b7280'')
      \<and> (UKMapSVG_interconnector ic = Some k \<longrightarrow> link_stroke k = ''#6b7280''))
   \<and> (flow_mw ic = Some f \<and> 600 \<le> \<bar>f\<bar> \<and> InterconnectorLine ic = Some l \<longrightarrow> line_weight l = \<bar>f\<bar> / 300)
   \<and> (flow_mw ic = Some f \<and> \<bar>f\<bar> \<le> 600 \<and> InterconnectorLine ic = Some l \<longrightarrow> line_weight l = 2)
   \<and> (flow_mw ic = Some f \<and> 1000 \<le> \<bar>f\<bar> \<longrightarrow> strokeWidth (InterconnectorCable ic) = \<bar>f\<bar> / 500)
   \<and> (flow_mw ic = Some f \<and> \<bar>f\<bar> \<le> 1000 \<longrightarrow> strokeWidth (InterconnectorCable ic) = 2)
   \<and> (UKMapSVG_interconnector ic = Some k \<longrightarrow> link_strokeWidth k = 3)
   \<and> map_option line_color (InterconnectorLine (moyle (-250))) = Some ''#ef4444''
   \<and> map_option line_direction (InterconnectorLine (moyle (-250))) = Some ''Export''
   \<and> map_option line_weight (InterconnectorLine (moyle (-250))) = Some 2"
proof -
  have cable: "stroke (InterconnectorCable ic) =
        (if or_number (flow_mw ic) 0 > 0 then ''#22c55e''
         else if or_number (flow_mw ic) 0 < 0 then ''#ef4444'' else ''#6b7280'')"
      "cable_direction (InterconnectorCable ic) =
        (if or_number (flow_mw ic) 0 > 0 then ''Import'' else ''Export'')"
      "strokeWidth (InterconnectorCable ic) = max 2 (\<bar>or_number (flow_mw ic) 0\<bar> / 500)"
    by (simp_all add: InterconnectorCable_def Let_def)
  have none: "flow_mw ic = None \<or> flow_mw ic = Some 0" if "falsy (flow_mw ic)"
    using that by (auto simp add: falsy_def split: option.splits)
  have moyle: "InterconnectorLine (moyle (-250)) \<noteq> None"
      "map_option line_color (InterconnectorLine (moyle (-250))) = Some ''#ef4444''"
      "map_option line_direction (InterconnectorLine (moyle (-250))) = Some ''Export''"
      "map_option line_weight (InterconnectorLine (moyle (-250))) = Some 2"
    by (simp_all add: moyle_def empty_entity_def InterconnectorLine_def
        coords_lat_def coords_lng_def or_number_def falsy_def Let_def)
  show ?thesis
    using InterconnectorLine_Some [of ic l] UKMapSVG_interconnector_Some [of ic k]
    by (intro conjI impI) (auto simp add: cable moyle or_number_simps cmp_num_simps max_def dest: none)
qed

theorem interconnector_flow_rendering_witness:
  "stroke (InterconnectorCable (moyle (-250))) = ''#ef4444''
   \<and> cable_direction (InterconnectorCable (moyle (-250))) = ''Export''
   \<and> strokeWidth (InterconnectorCable (moyle (-250))) = 2
   \<and> InterconnectorLine (moyle (-250)) \<noteq> None
   \<and> line_color (the (InterconnectorLine (moyle (-250)))) = ''#ef4444''
   \<and> line_weight (the (InterconnectorLine (moyle (-250)))) = 2
   \<and> UKMapSVG_interconnector (moyle (-250)) \<noteq> None
   \<and> link_stroke (the (UKMapSVG_interconnector (moyle (-250)))) = ''#ef4444''
   \<and> link_strokeWidth (the (UKMapSVG_interconnector (moyle (-250)))) = 3
   \<and> stroke (InterconnectorCable (moyle 1200)) = ''#22c55e''
   \<and> strokeWidth (InterconnectorCable (moyle 1200)) = 12 / 5
   \<and> line_weight (the (InterconnectorLine (moyle 1200))) = 4
   \<and> stroke (InterconnectorCable (moyle 0)) = ''#6b7280''"
proof -
  define l1 where "l1 = the (InterconnectorLine (moyle (-250)))"
  define k1 where "k1 = the (UKMapSVG_interconnector (moyle (-250)))"
  define l2 where "l2 = the (InterconnectorLine (moyle 1200))"
  have f: "flow_mw (moyle x) = Some x" for x
    by (simp add: moyle_def empty_entity_def)
  have l: "InterconnectorLine (moyle x) = Some (the (InterconnectorLine (moyle x)))" for x
    by (simp add: moyle_def empty_entity_def InterconnectorLine_def coords_lat_def
        coords_lng_def falsy_def Let_def)
  have k: "UKMapSVG_interconnector (moyle x) = Some (the (UKMapSVG_interconnector (moyle x)))" for x
    by (simp add: moyle_def empty_entity_def UKMapSVG_interconnector_def)
  have l1: "InterconnectorLine (moyle (-250)) = Some l1"
    unfolding l1_def by (rule l)
  have k1: "UKMapSVG_interconnector (moyle (-250)) = Some k1"
    unfolding k1_def by (rule k)
  have l2: "InterconnectorLine (moyle 1200) = Some l2"
    unfolding l2_def by (rule l)
  have z: "falsy (flow_mw (moyle 0))"
    by (simp add: f falsy_def)
  have export: "stroke (InterconnectorCable (moyle (-250))) = ''#ef4444''
      \<and> cable_direction (InterconnectorCable (moyle (-250))) = ''Export''
      \<and> strokeWidth (InterconnectorCable (moyle (-250))) = 2
      \<and> line_color l1 = ''#ef4444'' \<and> line_weight l1 = 2
      \<and> link_stroke k1 = ''#ef4444'' \<and> link_strokeWidth k1 = 3"
    using interconnector_flow_rendering [of "moyle (-250)" "-250" l1 k1] f [of "-250"] l1 k1
    by simp
  have import: "stroke (InterconnectorCable (moyle 1200)) = ''#22c55e''
      \<and> strokeWidth (InterconnectorCable (moyle 1200)) = 12 / 5 \<and> line_weight l2 = 4"
    using interconnector_flow_rendering [of "moyle 1200" 1200 l2 k1] f [of 1200] l2
    by simp
  have idle: "stroke (InterconnectorCable (moyle 0)) = ''#6b7280''"
    using interconnector_flow_rendering [of "moyle 0" 0 l1 k1] z
    by simp
  show ?thesis
    using export import idle l1 k1
    by (simp add: l1_def [symmetric] k1_def [symmetric] l2_def [symmetric])
qed

text \<open>The definitions a panel unfolds to when it is evaluated on a concrete selection.\<close>

lemmas panel_defs =
  SelectionDetailPanel_def SelectionPanel_def isGenerator_def isNode_def isInterconnector_def
  SelectionDetailPanel_generator_rows_def SelectionDetailPanel_interconnector_rows_def
  SelectionPanel_generator_rows_def SelectionPanel_interconnector_rows_def
  SelectionDetailPanel_capacityFactor_def SelectionPanel_capacityFactor_def
  formatMW_def formatMW_dash_def flow_class_def flow_direction_def ge_num_def to_num_def
  or_number_def




text \<open>
  With zero capacity the divisor becomes 1: a generator of capacity 0 and output 5 MW is
  shown with a capacity factor of 500 percent, not with 0 percent or a dash.
\<close>

theorem capacity_factor_counterexample:
  "capacity_mw zero_capacity_generator = Some 0
   \<and> SelectionDetailPanel_capacityFactor zero_capacity_generator = Num 500
   \<and> SelectionPanel_capacityFactor zero_capacity_generator = Num 500
   \<and> map_option (map rows \<circ> sections) (SelectionDetailPanel (Some zero_capacity_generator))
       = Some [[(''Type'', Text (Some ''gas''), ''text-white''),
                (''Output'', MW 5, ''text-white''),
                (''Capacity'', MW 0, ''text-white''),
                (''Capacity Factor'', Percent (Num 500), ''text-white'')]]"
  by (simp add: zero_capacity_generator_def empty_entity_def panel_defs)

text \<open>
  Without an output field the schematic panel computes \<open>NaN\<close>; the real-map panel
  defaults the output to 0 first.
\<close>

lemma capacity_factor_absent_output:
  "SelectionDetailPanel_capacityFactor (empty_entity\<lparr>fuel_type := Some ''wind'', capacity_mw := Some 100\<rparr>) = NaN
   \<and> SelectionPanel_capacityFactor (empty_entity\<lparr>fuel_type := Some ''wind'', capacity_mw := Some 100\<rparr>) = Num 0"
  by (simp add: empty_entity_def panel_defs)

text \<open>
  C7 (amended). For every generator whose output is present and non-negative and whose
  capacity is non-negative, the capacity factor shown in the detail panel is a defined
  number, at least 0: output over capacity times 100 when the capacity is not 0; when
  the capacity is 0 or absent the divisor 1 is used, so the value shown is the output
  times 100, which is 0 percent when the output is 0. The real-map panel also shows 0 percent when the output
  is absent. The value is the one displayed in the row "Capacity Factor".
\<close>

theorem capacity_factor_defined:
  "(0 \<le> out \<and> 0 \<le> cap \<longrightarrow>
      num_le (Num 0) (SelectionDetailPanel_capacityFactor (g\<lparr>output_mw := Some out, capacity_mw := Some cap\<rparr>))
      \<and> num_le (Num 0) (SelectionPanel_capacityFactor (g\<lparr>output_mw := Some out, capacity_mw := Some cap\<rparr>))
      \<and> num_le (Num 0) (SelectionPanel_capacityFactor (g\<lparr>output_mw := None, capacity_mw := Some cap\<rparr>)))
   \<and> (cap \<noteq> 0 \<longrightarrow>
      SelectionDetailPanel_capacityFactor (g\<lparr>output_mw := Some out, capacity_mw := Some cap\<rparr>)
        = Num (out / cap * 100)
      \<and> SelectionPanel_capacityFactor (g\<lparr>output_mw := Some out, capacity_mw := Some cap\<rparr>)
        = Num (out / cap * 100))
   \<and> SelectionDetailPanel_capacityFactor (g\<lparr>output_mw := Some out, capacity_mw := Some 0\<rparr>)
        = Num (out * 100)
   \<and> SelectionDetailPanel_capacityFactor (g\<lparr>output_mw := Some out, capacity_mw := None\<rparr>)
        = Num (out * 100)
   \<and> SelectionPanel_capacityFactor (g\<lparr>output_mw := Some out, capacity_mw := Some 0\<rparr>)
        = Num (out * 100)
   \<and> SelectionPanel_capacityFactor (g\<lparr>output_mw := Some out, capacity_mw := None\<rparr>)
        = Num (out * 100)
   \<and> SelectionDetailPanel_capacityFactor (g\<lparr>output_mw := Some 0, capacity_mw := Some 0\<rparr>) = Num 0
   \<and> SelectionPanel_capacityFactor (g\<lparr>output_mw := Some 0, capacity_mw := Some 0\<rparr>) = Num 0
   \<and> SelectionPanel_capacityFactor (g\<lparr>output_mw := None, capacity_mw := Some 0\<rparr>) = Num 0
   \<and> (fuel_type g \<noteq> None \<and> SelectionDetailPanel (Some g) = Some p \<longrightarrow>
        (''Capacity Factor'', Percent (SelectionDetailPanel_capacityFactor g), ''text-white'')
          \<in> set (concat (map rows (sections p))))
   \<and> (fuel_type g \<noteq> None \<and> SelectionPanel (Some g) = Some q \<longrightarrow>
        (''Capacity Factor'', Percent (SelectionPanel_capacityFactor g), ''text-white'')
          \<in> set (concat (map rows (sections q))))"
proof -
  have shown1: "(''Capacity Factor'', Percent (SelectionDetailPanel_capacityFactor g), ''text-white'')
          \<in> set (concat (map rows (sections p)))"
    if "fuel_type g \<noteq> None" "SelectionDetailPanel (Some g) = Some p"
    using that
    by (auto simp add: SelectionDetailPanel_def isGenerator_def SelectionDetailPanel_generator_rows_def)
  have shown2: "(''Capacity Factor'', Percent (SelectionPanel_capacityFactor g), ''text-white'')
          \<in> set (concat (map rows (sections q)))"
    if "fuel_type g \<noteq> None" "SelectionPanel (Some g) = Some q"
    using that
    by (auto simp add: SelectionPanel_def isGenerator_def SelectionPanel_generator_rows_def)
  have nonneg: "0 \<le> out / cap" if "0 \<le> out" "0 \<le> cap"
    using that by simp
  show ?thesis
    using shown1 shown2 nonneg
    by (simp add: SelectionDetailPanel_capacityFactor_def SelectionPanel_capacityFactor_def
        to_num_def or_number_simps)
qed

theorem capacity_factor_defined_witness:
  "SelectionDetailPanel_capacityFactor (only_generator\<lparr>output_mw := Some 50, capacity_mw := Some 100\<rparr>) = Num 50
   \<and> num_le (Num 0) (SelectionPanel_capacityFactor (only_generator\<lparr>output_mw := Some 50, capacity_mw := Some 100\<rparr>))
   \<and> SelectionDetailPanel (Some only_generator) \<noteq> None
   \<and> (''Capacity Factor'', Percent (SelectionDetailPanel_capacityFactor only_generator), ''text-white'')
          \<in> set (concat (map rows (sections (the (SelectionDetailPanel (Some only_generator))))))
   \<and> (''Capacity Factor'', Percent (SelectionPanel_capacityFactor only_generator), ''text-white'')
          \<in> set (concat (map rows (sections (the (SelectionPanel (Some only_generator))))))"
proof -
  define p where "p = the (SelectionDetailPanel (Some only_generator))"
  define q where "q = the (SelectionPanel (Some only_generator))"
  have p: "SelectionDetailPanel (Some only_generator) = Some p"
    unfolding p_def by (simp add: SelectionDetailPanel_def)
  have q: "SelectionPanel (Some only_generator) = Some q"
    unfolding q_def by (simp add: SelectionPanel_def)
  have f: "fuel_type only_generator \<noteq> None"
    by (simp add: only_generator_def empty_entity_def)
  show ?thesis
    using capacity_factor_defined [of 50 100 only_generator p q] p q f
    by (simp add: p_def [symmetric] q_def [symmetric])
qed

text \<open>
  C1. When the overlay feed is present and returns an empty collection for a layer, the
  layer's collection is to stay empty, the default set being for an absent feed only.
  In the real-map simulator the extraction cannot tell the two apart: on the overlay
  whose layers all carry an empty array, the generators become the 8 default generators
  and the grid nodes the 25 default supply points. The interconnector and carbon layers,
  and every layer of the schematic simulator, stay empty.
\<close>

theorem empty_feed_replaced_by_defaults:
  "layer_data (Some empty_layers_overlay) generators = []
   \<and> layer_data (Some empty_layers_overlay) grid_nodes = []
   \<and> GridSimulatorMap_generators (Some empty_layers_overlay) = DEFAULT_GENERATORS
   \<and> GridSimulatorMap_gridNodes (Some empty_layers_overlay) = DEFAULT_GSPS
   \<and> length DEFAULT_GENERATORS = 8 \<and> length DEFAULT_GSPS = 25
   \<and> GridSimulatorMap_interconnectors (Some empty_layers_overlay) = []
   \<and> GridSimulatorMap_carbonRegions (Some empty_layers_overlay) = []
   \<and> GridSimulator_generators (Some empty_layers_overlay) = []
   \<and> GridSimulator_gridNodes (Some empty_layers_overlay) = []"
  by (simp add: empty_layers_overlay_def layer_data_def GridSimulatorMap_generators_def
      GridSimulatorMap_gridNodes_def GridSimulatorMap_interconnectors_def
      GridSimulatorMap_carbonRegions_def GridSimulator_generators_def
      GridSimulator_gridNodes_def DEFAULT_GENERATORS_def DEFAULT_GSPS_def)

text \<open>An absent overlay gives the default sets; a non-empty array is kept as it is.\<close>

lemma absent_feed_uses_defaults:
  "GridSimulatorMap_generators None = DEFAULT_GENERATORS
   \<and> GridSimulatorMap_gridNodes None = DEFAULT_GSPS"
  by (simp add: layer_data_def GridSimulatorMap_generators_def GridSimulatorMap_gridNodes_def)

lemma nonempty_feed_kept:
  "layer_data ov generators \<noteq> [] \<Longrightarrow> GridSimulatorMap_generators ov = layer_data ov generators"
  by (simp add: GridSimulatorMap_generators_def)

text \<open>
  C2. In a poll cycle where the request for one document fails while the others succeed,
  the stored data of the failed document is to stay as it was and the others are to
  update. \<open>useGridData\<close> does neither: when the snapshot response is not 2xx the
  stored snapshot is replaced by \<open>null\<close>, and when the snapshot request is rejected
  the overlay and the opportunities that arrived are dropped. The map overlay's
  \<open>refreshData\<close> keeps the old snapshot and stores the new overlay and opportunities
  on the same cycles.
\<close>

theorem fetchData_failed_document_not_retained:
  "snapshot store_before = Some old_snapshot
   \<and> snapshot (fetchData store_before NotOk (Json new_overlay) (Json new_opportunities) 60000) = None
   \<and> overlay (fetchData store_before NotOk (Json new_overlay) (Json new_opportunities) 60000)
        = Some new_overlay
   \<and> overlay (fetchData store_before (Rejected ''Failed to fetch'') (Json new_overlay)
        (Json new_opportunities) 60000) = Some old_overlay
   \<and> stored_opportunities (fetchData store_before (Rejected ''Failed to fetch'') (Json new_overlay)
        (Json new_opportunities) 60000) = []
   \<and> old_overlay \<noteq> new_overlay
   \<and> overlay_snapshot (refreshData overlay_store_before (Json new_overlay) NotOk
        (Json new_opportunities)) = Some old_snapshot
   \<and> overlayState (refreshData overlay_store_before (Json new_overlay) NotOk
        (Json new_opportunities)) = Some new_overlay
   \<and> overlay_opportunities (refreshData overlay_store_before (Json new_overlay)
        (Rejected ''Failed to fetch'') (Json new_opportunities)) = [charge_now]"
  by (simp add: store_before_def overlay_store_before_def fetchData_def refreshData_def
      then_ok_json_def fetch_or_null_def opportunities_or_empty_def new_opportunities_def
      old_overlay_def new_overlay_def)

text \<open>
  \<open>refreshData\<close> of the map overlay isolates the three documents: a failed one keeps
  its stored value, a received one is stored.
\<close>

lemma refreshData_isolates_failures:
  "(fetch_or_null overlayReq = None \<longrightarrow>
      overlayState (refreshData st overlayReq snapReq oppsReq) = overlayState st)
   \<and> (fetch_or_null snapReq = None \<longrightarrow>
      overlay_snapshot (refreshData st overlayReq snapReq oppsReq) = overlay_snapshot st)
   \<and> (fetch_or_null oppsReq = None \<longrightarrow>
      overlay_opportunities (refreshData st overlayReq snapReq oppsReq) = overlay_opportunities st)
   \<and> (overlayReq = Json ov \<longrightarrow>
      overlayState (refreshData st overlayReq snapReq oppsReq) = Some ov)
   \<and> (snapReq = Json snap \<longrightarrow>
      overlay_snapshot (refreshData st overlayReq snapReq oppsReq) = Some snap)
   \<and> (oppsReq = Json opps \<longrightarrow>
      overlay_opportunities (refreshData st overlayReq snapReq oppsReq)
        = opportunities_or_empty (Some opps))"
  by (simp add: refreshData_def fetch_or_null_def)
















end
